theory Spec2Isabelle
  imports Complex_Main "HOL-Library.Char_ord" "HOL-Library.List_Lexorder" "HOL-Library.Option_ord"
begin

section \<open>Rocket.Chat to Slack migration: \<^verbatim>\<open>scripts/map_rc_to_slack.py\<close>\<close>

text \<open>
  The script reads users, rooms and messages from a MongoDB database and writes Slack
  import files. This theory embeds its helper functions and the two message export phases
  (Phase 3, CSV, and Phase 4, JSON) as HOL functions.

  Conventions of the embedding.
  \<^item> A Python \<open>str\<close> is a \<open>string\<close>, one \<open>char\<close> per code point; the texts covered are
    those whose code points lie in U+0000..U+00FF. \<open>len\<close> is \<open>length\<close>.
  \<^item> A document of the database is a record whose optional keys are \<open>option\<close> fields:
    \<open>None\<close> is the absent key, \<open>Some v\<close> the key present with a value of the type the
    Rocket.Chat schema gives it. The text body \<open>msg\<close> may also be present and null.
  \<^item> A Python exception is a value \<open>Inl e\<close> of the result; a loop stops at the first.
  \<^item> The names \<open>re\<close>, \<open>csv\<close>, \<open>tqdm\<close> and \<open>ASCENDING\<close> are used by the script but bound
    by none of its import lines; they are read as the standard-library modules, the
    progress-bar wrapper (the identity on the iterated sequence) and pymongo's sort
    direction. The name \<open>datetime\<close> is bound, by \<open>from datetime import datetime\<close>, to the
    class.
\<close>

subsection \<open>Errors, integers as text, timestamps\<close>

datatype py_error = KeyError | TypeError | AttributeError | ZeroDivisionError

text \<open>\<open>str(n)\<close> for an integer: its decimal digits, with a minus sign when negative.\<close>

definition digit_char :: "nat \<Rightarrow> char" where
  "digit_char d = ''0123456789'' ! d"

fun str_nat :: "nat \<Rightarrow> string" where
  "str_nat n = (if n < 10 then [digit_char n] else str_nat (n div 10) @ [digit_char (n mod 10)])"

declare str_nat.simps [simp del]

definition str_int :: "int \<Rightarrow> string" where
  "str_int i = (if i < 0 then CHR ''-'' # str_nat (nat (- i)) else str_nat (nat i))"

text \<open>
  A BSON date is a count of milliseconds since the epoch; pymongo hands it over as a
  \<open>datetime\<close>. \<open>int(d.timestamp())\<close> is the number of whole seconds, truncated towards
  zero (the process is taken to run in UTC, where the floating-point sum of whole seconds
  and the millisecond fraction is exact enough to truncate correctly).
\<close>

type_synonym datetime = int

definition timestamp_int :: "datetime \<Rightarrow> int" where
  "timestamp_int d = (if 0 \<le> d then d div 1000 else - ((- d) div 1000))"

subsection \<open>String operations\<close>

text \<open>
  \<open>s.replace(old, new)\<close>: the occurrences of \<open>old\<close> are found from the left and do not
  overlap. For an empty \<open>old\<close> Python puts \<open>new\<close> before every character and at the end.
\<close>

fun py_replace_from :: "string \<Rightarrow> string \<Rightarrow> string \<Rightarrow> string" where
  "py_replace_from old new [] = []"
| "py_replace_from old new (c # cs) =
     (if old \<noteq> [] \<and> take (length old) (c # cs) = old
      then new @ py_replace_from old new (drop (length old) (c # cs))
      else c # py_replace_from old new cs)"

definition py_replace :: "string \<Rightarrow> string \<Rightarrow> string \<Rightarrow> string" where
  "py_replace old new s =
     (if old = [] then new @ concat (map (\<lambda>c. c # new) s) else py_replace_from old new s)"

text \<open>\<open>xs[start:end]\<close> with integer bounds: a negative bound counts from the end, and
  both are clamped to the sequence.\<close>

definition py_slice :: "'a list \<Rightarrow> int \<Rightarrow> int \<Rightarrow> 'a list" where
  "py_slice xs start end =
     (let n = int (length xs);
          s = (if start < 0 then max 0 (n + start) else min start n);
          e = (if end < 0 then max 0 (n + end) else min end n)
      in take (nat (e - s)) (drop (nat s) xs))"

text \<open>\<open>sep.join(xs)\<close>.\<close>

fun py_join :: "string \<Rightarrow> string list \<Rightarrow> string" where
  "py_join sep [] = []"
| "py_join sep [x] = x"
| "py_join sep (x # y # ys) = x @ sep @ py_join sep (y # ys)"

text \<open>\<open>sub in s\<close> for strings: \<open>sub\<close> occurs somewhere in \<open>s\<close>.\<close>

fun py_contains :: "string \<Rightarrow> string \<Rightarrow> bool" where
  "py_contains sub [] = (sub = [])"
| "py_contains sub (c # cs) = (take (length sub) (c # cs) = sub \<or> py_contains sub cs)"

subsection \<open>CSV text preparation\<close>

definition escape_for_csv :: "string option \<Rightarrow> string" where
  \<open>escape_for_csv text =
     (case text of None \<Rightarrow> '''' | Some t \<Rightarrow> py_replace ''"'' ''""'' t)\<close>

definition part_with_indicator :: "nat \<Rightarrow> int \<Rightarrow> string \<Rightarrow> string" where
  "part_with_indicator i num_parts segment =
     ''[Part '' @ str_int (int i + 1) @ ''/'' @ str_int num_parts @ ''] '' @ segment"

text \<open>
  \<open>prepare_message_for_csv(text, max_length)\<close>. \<open>not text\<close> holds for \<open>None\<close> and for the
  empty string. The ceiling division raises for \<open>max_length = 0\<close>; the loop
  \<open>for i in range(num_parts)\<close> runs over \<open>0, ..., num_parts - 1\<close> and not at all when
  \<open>num_parts \<le> 0\<close>.
\<close>

definition prepare_message_for_csv :: "string option \<Rightarrow> int \<Rightarrow> py_error + string list" where
  \<open>prepare_message_for_csv text max_length =
     (case text of
        None \<Rightarrow> Inr ['''']
      | Some t \<Rightarrow>
          if t = [] then Inr ['''']
          else
            let escaped_text = py_replace ''"'' ''""'' t in
            if int (length escaped_text) \<le> max_length then Inr [escaped_text]
            else
              let total_length = int (length escaped_text) in
              if max_length = 0 then Inl ZeroDivisionError
              else
                let num_parts = (total_length + max_length - 1) div max_length in
                Inr (map (\<lambda>i.
                       let start = int i * max_length;
                           end = min (start + max_length) total_length;
                           segment = py_slice escaped_text start end
                       in part_with_indicator i num_parts segment)
                     [0..<nat num_parts]))\<close>

definition default_max_length :: int where
  "default_max_length = 4000"

subsection \<open>Channel names\<close>

text \<open>
  \<open>str.lower()\<close> on the code points U+0000..U+00FF: the letters A..Z and the accented
  capitals U+00C0..U+00DE (without the multiplication sign U+00D7) move to their small
  forms, every other character stays.
\<close>

definition upper_chars :: string where
  "upper_chars = ''ABCDEFGHIJKLMNOPQRSTUVWXYZ'' @
     [CHR 0xC0, CHR 0xC1, CHR 0xC2, CHR 0xC3, CHR 0xC4, CHR 0xC5, CHR 0xC6, CHR 0xC7,
      CHR 0xC8, CHR 0xC9, CHR 0xCA, CHR 0xCB, CHR 0xCC, CHR 0xCD, CHR 0xCE, CHR 0xCF,
      CHR 0xD0, CHR 0xD1, CHR 0xD2, CHR 0xD3, CHR 0xD4, CHR 0xD5, CHR 0xD6,
      CHR 0xD8, CHR 0xD9, CHR 0xDA, CHR 0xDB, CHR 0xDC, CHR 0xDD, CHR 0xDE]"

definition lower_chars :: string where
  "lower_chars = ''abcdefghijklmnopqrstuvwxyz'' @
     [CHR 0xE0, CHR 0xE1, CHR 0xE2, CHR 0xE3, CHR 0xE4, CHR 0xE5, CHR 0xE6, CHR 0xE7,
      CHR 0xE8, CHR 0xE9, CHR 0xEA, CHR 0xEB, CHR 0xEC, CHR 0xED, CHR 0xEE, CHR 0xEF,
      CHR 0xF0, CHR 0xF1, CHR 0xF2, CHR 0xF3, CHR 0xF4, CHR 0xF5, CHR 0xF6,
      CHR 0xF8, CHR 0xF9, CHR 0xFA, CHR 0xFB, CHR 0xFC, CHR 0xFD, CHR 0xFE]"

definition lower_char :: "char \<Rightarrow> char" where
  "lower_char c = (case map_of (zip upper_chars lower_chars) c of Some l \<Rightarrow> l | None \<Rightarrow> c)"

definition py_lower :: "string \<Rightarrow> string" where
  "py_lower s = map lower_char s"

text \<open>
  \<open>re.sub(r'[^a-z0-9_-]', '-', s)\<close>: every character outside the class is replaced by a
  hyphen, one for one.
\<close>

definition slug_class :: "char set" where
  "slug_class = set ''abcdefghijklmnopqrstuvwxyz0123456789_-''"

definition re_sub_slug :: "string \<Rightarrow> string" where
  "re_sub_slug s = map (\<lambda>c. if c \<in> slug_class then c else CHR ''-'') s"

definition slug :: "string \<Rightarrow> string" where
  "slug name = take 80 (re_sub_slug (py_lower name))"

subsection \<open>Rooms\<close>

record rc_room =
  r_id :: string
  r_t :: string
  r_name :: "string option"
  r_usernames :: "string list option"
  r_ts :: "datetime option"
  r_archived :: "bool option"

record slack_room =
  sr_id :: string
  sr_name :: string
  sr_created :: int
  sr_is_archived :: bool
  sr_is_private :: bool

text \<open>
  \<open>make_room_entry(rc_room, is_private)\<close>. \<open>sorted\<close> orders the user names by code
  points; \<open>rc_room["ts"]\<close> raises \<open>KeyError\<close> when the room has no creation time.
\<close>

definition room_name :: "rc_room \<Rightarrow> string" where
  "room_name rc_room =
     (case r_name rc_room of
        None \<Rightarrow>
          (case r_usernames rc_room of
             Some usernames \<Rightarrow> py_join ''-'' (sort usernames)
           | None \<Rightarrow> ''dm-'' @ r_id rc_room)
      | Some n \<Rightarrow> n)"

definition make_room_entry :: "rc_room \<Rightarrow> bool \<Rightarrow> py_error + slack_room" where
  "make_room_entry rc_room is_private =
     (case r_ts rc_room of
        None \<Rightarrow> Inl KeyError
      | Some ts \<Rightarrow>
          Inr \<lparr> sr_id = ''C'' @ r_id rc_room,
                sr_name = slug (room_name rc_room),
                sr_created = timestamp_int ts,
                sr_is_archived = (case r_archived rc_room of None \<Rightarrow> False | Some a \<Rightarrow> a),
                sr_is_private = is_private \<rparr>)"

text \<open>Phase 2 sorts each room into one export file by its kind \<open>t\<close>; a room of another
  kind is written to none.\<close>

definition room_export_entry :: "rc_room \<Rightarrow> (string \<times> (py_error + slack_room)) option" where
  "room_export_entry r =
     (if r_t r = ''c'' then Some (''channels.json'', make_room_entry r False)
      else if r_t r = ''p'' then Some (''groups.json'', make_room_entry r True)
      else if r_t r = ''d'' then Some (''dms.json'', make_room_entry r True)
      else if r_t r = ''l'' then Some (''mpims.json'', make_room_entry r True)
      else None)"

text \<open>The room map of Phase 3 (lines 343 to 353), one assignment per room.\<close>

definition room_map_value :: "rc_room \<Rightarrow> string" where
  "room_map_value r =
     (case r_name r of
        Some n \<Rightarrow> slug n
      | None \<Rightarrow>
          (case r_usernames r of
             Some usernames \<Rightarrow> slug (py_join ''-'' (sort usernames))
           | None \<Rightarrow> ''dm-'' @ r_id r))"

definition build_room_map :: "rc_room list \<Rightarrow> (string \<rightharpoonup> string)" where
  "build_room_map rooms = foldl (\<lambda>room_map r. room_map(r_id r \<mapsto> room_map_value r)) Map.empty rooms"

subsection \<open>Messages and the content extractor\<close>

record user_ref =
  u_id :: "string option"
  u_username :: "string option"

record md_value =
  mv_value :: "string option"

record md_item =
  md_type :: "string option"
  md_value :: "md_value option"

record attachment =
  att_description :: "string option"
  att_title :: "string option"
  att_descriptionMd :: "md_item list option"

text \<open>A file entry is a dictionary of text fields, of which the script reads \<open>name\<close>;
  the empty dictionary is false in a condition.\<close>

type_synonym file_info = "(string \<times> string) list"

record reaction =
  rx_usernames :: "string list option"

record rc_message =
  m_rid :: "string option"
  m_u :: "user_ref option"
  m_ts :: "datetime option"
  m_msg :: "string option option"
  m_mentions :: "string list option"
  m_attachments :: "attachment list option"
  m_file :: "file_info option"
  m_files :: "file_info list option"
  m_reactions :: "(string \<times> reaction) list option"

text \<open>
  The running \<open>content\<close> is a string, or \<open>None\<close> when the document stores a null text
  body (\<open>msg.get('msg', '')\<close> gives the default only for an absent key).
  \<open>if content: content += "\n"\<close> does nothing for \<open>None\<close> and for the empty string;
  \<open>content += s\<close> raises \<open>TypeError\<close> on \<open>None\<close>.
\<close>

definition add_newline :: "string option \<Rightarrow> string option" where
  "add_newline content =
     (case content of
        None \<Rightarrow> None
      | Some s \<Rightarrow> if s \<noteq> [] then Some (s @ [CHR 0x0A]) else Some s)"

definition py_add :: "string option \<Rightarrow> string \<Rightarrow> py_error + string option" where
  "py_add content s = (case content of None \<Rightarrow> Inl TypeError | Some c \<Rightarrow> Inr (Some (c @ s)))"

definition get_or_empty :: "string option \<Rightarrow> string" where
  "get_or_empty v = (case v of None \<Rightarrow> '''' | Some s \<Rightarrow> s)"

text \<open>The loop over \<open>descriptionMd\<close>: each user mention replaces \<open>@user\<close> by \<open>@user\<close>.\<close>

fun mention_loop :: "md_item list \<Rightarrow> string \<Rightarrow> string" where
  "mention_loop [] desc = desc"
| "mention_loop (md_item # rest) desc =
     mention_loop rest
       (if md_type md_item = Some ''MENTION_USER''
        then let user_value = (case md_value md_item of
                                 None \<Rightarrow> ''''
                               | Some v \<Rightarrow> get_or_empty (mv_value v))
             in py_replace (''@'' @ user_value) (''@'' @ user_value) desc
        else desc)"

definition attachment_step :: "string option \<Rightarrow> attachment \<Rightarrow> py_error + string option" where
  "attachment_step content a =
     (if (case att_description a of None \<Rightarrow> False | Some d \<Rightarrow> d \<noteq> []) then
        let content1 = add_newline content;
            desc = get_or_empty (att_description a);
            desc1 = (case att_descriptionMd a of
                       None \<Rightarrow> desc
                     | Some items \<Rightarrow> mention_loop items desc)
        in py_add content1 (''[Attachment: '' @ desc1 @ '']'')
      else if att_title a \<noteq> None then
        py_add (add_newline content) (''[Attachment: '' @ get_or_empty (att_title a) @ '']'')
      else Inr content)"

fun attachments_loop :: "string option \<Rightarrow> attachment list \<Rightarrow> py_error + string option" where
  "attachments_loop content [] = Inr content"
| "attachments_loop content (a # rest) =
     (case attachment_step content a of
        Inl e \<Rightarrow> Inl e
      | Inr content1 \<Rightarrow> attachments_loop content1 rest)"

definition file_name :: "file_info \<Rightarrow> string" where
  "file_name file_info = get_or_empty (map_of file_info ''name'')"

definition file_line :: "string option \<Rightarrow> file_info \<Rightarrow> py_error + string option" where
  "file_line content file_info =
     py_add (add_newline content) (''[File: '' @ file_name file_info @ '']'')"

fun files_loop :: "string option \<Rightarrow> file_info list \<Rightarrow> py_error + string option" where
  "files_loop content [] = Inr content"
| "files_loop content (file_info # rest) =
     (if \<not> py_contains ''thumb-'' (file_name file_info)
      then (case file_line content file_info of
              Inl e \<Rightarrow> Inl e
            | Inr content1 \<Rightarrow> files_loop content1 rest)
      else files_loop content rest)"

fun reactions_loop :: "(string \<times> reaction) list \<Rightarrow> string list" where
  "reactions_loop [] = []"
| "reactions_loop ((emoji, data) # rest) =
     (case rx_usernames data of
        Some usernames \<Rightarrow> (emoji @ '' ('' @ py_join '', '' usernames @ '')'') # reactions_loop rest
      | None \<Rightarrow> reactions_loop rest)"

definition attachments_part :: "rc_message \<Rightarrow> string option \<Rightarrow> py_error + string option" where
  "attachments_part msg content =
     (case m_attachments msg of
        None \<Rightarrow> Inr content
      | Some atts \<Rightarrow> if atts \<noteq> [] then attachments_loop content atts else Inr content)"

definition files_part :: "rc_message \<Rightarrow> string option \<Rightarrow> py_error + string option" where
  "files_part msg content =
     (if (case m_file msg of None \<Rightarrow> False | Some f \<Rightarrow> f \<noteq> []) then
        (case m_file msg of None \<Rightarrow> Inr content | Some file_info \<Rightarrow> file_line content file_info)
      else
        (case m_files msg of
           None \<Rightarrow> Inr content
         | Some fs \<Rightarrow> if fs \<noteq> [] then files_loop content fs else Inr content))"

definition reactions_part :: "rc_message \<Rightarrow> string option \<Rightarrow> py_error + string option" where
  "reactions_part msg content =
     (case m_reactions msg of
        None \<Rightarrow> Inr content
      | Some rs \<Rightarrow>
          if rs \<noteq> [] then
            let reactions_text = reactions_loop rs in
            if reactions_text \<noteq> []
            then py_add (add_newline content)
                   (''[Reactions: '' @ py_join '' | '' reactions_text @ '']'')
            else Inr content
          else Inr content)"

text \<open>\<open>process_message_content(msg)\<close>; the branch on \<open>mentions\<close> is a \<open>pass\<close>.\<close>

definition process_message_content :: "rc_message \<Rightarrow> py_error + string option" where
  "process_message_content msg =
     (let content = (case m_msg msg of None \<Rightarrow> Some '''' | Some v \<Rightarrow> v) in
      case attachments_part msg content of
        Inl e \<Rightarrow> Inl e
      | Inr content1 \<Rightarrow>
          (case files_part msg content1 of
             Inl e \<Rightarrow> Inl e
           | Inr content2 \<Rightarrow> reactions_part msg content2))"

subsection \<open>Phase 3: the CSV export\<close>

text \<open>
  Modelled from the spec: \<open>csv.writer(f, quoting=csv.QUOTE_MINIMAL).writerow\<close> of the
  Python standard library, which the script calls and does not define. The spec names
  it "minimal quoting" and "standard quoted-field CSV encoding": a field is written as
  it is unless it holds the delimiter, the quote character or a line-break character;
  such a field is put between double quotes with every double quote inside it doubled.
  Fields are joined by commas and the row ends with carriage return and line feed. An
  integer field is written as \<open>str\<close> gives it.
\<close>

definition csv_special :: "char set" where
  \<open>csv_special = {CHR '','', CHR 0x22, CHR 0x0D, CHR 0x0A}\<close>

definition csv_field :: "string \<Rightarrow> string" where
  \<open>csv_field s =
     (if set s \<inter> csv_special \<noteq> {}
      then ''"'' @ concat (map (\<lambda>c. if c = CHR 0x22 then ''""'' else [c]) s) @ ''"''
      else s)\<close>

definition csv_writerow :: "string list \<Rightarrow> string" where
  "csv_writerow row = py_join '','' (map csv_field row) @ [CHR 0x0D, CHR 0x0A]"

text \<open>
  The state of the loop: the row counter, the statistics counter that moves with it,
  the paths of the files created, in order, and for each channel with an open file the
  rows written to it so far.
\<close>

record csv_state =
  message_count :: nat
  stats_messages_mongodb :: nat
  csv_files_created :: "string list"
  channel_files :: "(string \<times> string list) list"

definition csv_state_init :: csv_state where
  "csv_state_init = \<lparr> message_count = 0, stats_messages_mongodb = 0,
                       csv_files_created = [], channel_files = [] \<rparr>"

definition write_to_channel :: "string \<Rightarrow> string \<Rightarrow> (string \<times> string list) list \<Rightarrow> (string \<times> string list) list" where
  "write_to_channel channel row files =
     map (\<lambda>(c, rows). if c = channel then (c, rows @ [row]) else (c, rows)) files"

definition open_channel_file :: "string \<Rightarrow> string \<Rightarrow> string \<Rightarrow> csv_state \<Rightarrow> csv_state" where
  "open_channel_file csv_base_name csv_extension channel st =
     (if map_of (channel_files st) channel = None
      then st\<lparr> channel_files := channel_files st @
                  [(channel, [csv_writerow [''timestamp'', ''channel'', ''username'', ''text'']])],
                csv_files_created := csv_files_created st @
                  [csv_base_name @ ''_'' @ channel @ csv_extension] \<rparr>
      else st)"

definition write_part :: "int \<Rightarrow> string \<Rightarrow> string \<Rightarrow> csv_state \<Rightarrow> string \<Rightarrow> csv_state" where
  "write_part timestamp channel user_identifier st part =
     st\<lparr> channel_files :=
            write_to_channel channel
              (csv_writerow [str_int timestamp, channel, user_identifier, part])
              (channel_files st),
          message_count := message_count st + 1,
          stats_messages_mongodb := stats_messages_mongodb st + 1 \<rparr>"

definition resolve_channel :: "(string \<rightharpoonup> string) \<Rightarrow> string \<Rightarrow> string" where
  "resolve_channel room_map rid =
     (case room_map rid of Some c \<Rightarrow> c | None \<Rightarrow> ''unknown-'' @ rid)"

definition resolve_username :: "(string \<rightharpoonup> string) \<Rightarrow> user_ref \<Rightarrow> string" where
  "resolve_username username_map u =
     (case (case u_id u of None \<Rightarrow> None | Some user_id \<Rightarrow> username_map user_id) of
        Some n \<Rightarrow> n
      | None \<Rightarrow> (case u_username u of Some n \<Rightarrow> n | None \<Rightarrow> ''unknown-user''))"

text \<open>A message takes part in the exports when it has a room, an author and a time.\<close>

definition is_complete :: "rc_message \<Rightarrow> bool" where
  "is_complete msg = (m_rid msg \<noteq> None \<and> m_u msg \<noteq> None \<and> m_ts msg \<noteq> None)"

text \<open>One turn of the loop of lines 392 to 429. The user maps of lines 356 to 372 and
  the base name and extension of the CSV path are given.\<close>

definition csv_loop_body ::
  "(string \<rightharpoonup> string) \<Rightarrow> (string \<rightharpoonup> string) \<Rightarrow> string \<Rightarrow> string \<Rightarrow>
   csv_state \<Rightarrow> rc_message \<Rightarrow> py_error + csv_state" where
  "csv_loop_body room_map username_map csv_base_name csv_extension st msg =
     (case (m_rid msg, m_u msg, m_ts msg) of
        (Some rid, Some u, Some ts) \<Rightarrow>
          (let timestamp = timestamp_int ts;
               channel = resolve_channel room_map rid;
               user_identifier = resolve_username username_map u
           in case process_message_content msg of
                Inl e \<Rightarrow> Inl e
              | Inr text \<Rightarrow>
                  (case prepare_message_for_csv text default_max_length of
                     Inl e \<Rightarrow> Inl e
                   | Inr text_parts \<Rightarrow>
                       Inr (foldl (write_part timestamp channel user_identifier)
                              (open_channel_file csv_base_name csv_extension channel st)
                              text_parts)))
      | _ \<Rightarrow> Inr st)"

fun csv_loop ::
  "(string \<rightharpoonup> string) \<Rightarrow> (string \<rightharpoonup> string) \<Rightarrow> string \<Rightarrow> string \<Rightarrow>
   csv_state \<Rightarrow> rc_message list \<Rightarrow> py_error + csv_state" where
  "csv_loop room_map username_map csv_base_name csv_extension st [] = Inr st"
| "csv_loop room_map username_map csv_base_name csv_extension st (msg # rest) =
     (case csv_loop_body room_map username_map csv_base_name csv_extension st msg of
        Inl e \<Rightarrow> Inl e
      | Inr st1 \<Rightarrow> csv_loop room_map username_map csv_base_name csv_extension st1 rest)"

text \<open>
  The sort of line 384, \<open>sorted(all_messages, key=lambda x: x.get('ts') if 'ts' in x
  else datetime.datetime.min)\<close>. For a message without \<open>ts\<close> the key is the expression
  \<open>datetime.datetime.min\<close>. The global \<open>datetime\<close> is the class (line 22), and the class
  has no attribute \<open>datetime\<close>: the lookup raises \<open>AttributeError\<close> before \<open>min\<close> is read.
\<close>

definition datetime_datetime_min :: "py_error + datetime" where
  "datetime_datetime_min = Inl AttributeError"

definition sort_key_ts :: "rc_message \<Rightarrow> py_error + datetime" where
  "sort_key_ts x = (case m_ts x of Some ts \<Rightarrow> Inr ts | None \<Rightarrow> datetime_datetime_min)"

text \<open>\<open>sorted\<close> computes the key of every element, in order, then sorts stably.\<close>

fun sort_keys :: "rc_message list \<Rightarrow> py_error + (datetime \<times> rc_message) list" where
  "sort_keys [] = Inr []"
| "sort_keys (x # xs) =
     (case sort_key_ts x of
        Inl e \<Rightarrow> Inl e
      | Inr k \<Rightarrow> (case sort_keys xs of Inl e \<Rightarrow> Inl e | Inr ks \<Rightarrow> Inr ((k, x) # ks)))"

definition sorted_messages :: "rc_message list \<Rightarrow> py_error + rc_message list" where
  "sorted_messages all_messages =
     (case sort_keys all_messages of
        Inl e \<Rightarrow> Inl e
      | Inr ks \<Rightarrow> Inr (map snd (sort_key fst ks)))"

definition csv_phase ::
  "(string \<rightharpoonup> string) \<Rightarrow> (string \<rightharpoonup> string) \<Rightarrow> string \<Rightarrow> string \<Rightarrow>
   rc_message list \<Rightarrow> py_error + csv_state" where
  "csv_phase room_map username_map csv_base_name csv_extension all_messages =
     (case sorted_messages all_messages of
        Inl e \<Rightarrow> Inl e
      | Inr messages \<Rightarrow>
          csv_loop room_map username_map csv_base_name csv_extension csv_state_init messages)"

subsection \<open>Phase 4: the JSON export\<close>

text \<open>
  Modelled from the spec: \<open>json.dumps\<close> of the Python standard library with its default
  settings, which the script calls and does not define. The spec asks for "a single
  JSON value" for each record \<open>{timestamp, channel, username, text}\<close>: an object whose
  keys come in that order, separated by \<open>", "\<close> and \<open>": "\<close>; a string between double
  quotes with the quote, the backslash and every character outside the printable ASCII
  range escaped (so no line break is ever written raw); \<open>None\<close> as \<open>null\<close>.
\<close>

definition hex_digit :: "nat \<Rightarrow> char" where
  "hex_digit d = ''0123456789abcdef'' ! d"

definition json_escape_char :: "char \<Rightarrow> string" where
  \<open>json_escape_char c =
     (if c = CHR 0x22 then [CHR 0x5C, CHR 0x22]
      else if c = CHR 0x5C then [CHR 0x5C, CHR 0x5C]
      else if c = CHR 0x0A then [CHR 0x5C, CHR ''n'']
      else if c = CHR 0x0D then [CHR 0x5C, CHR ''r'']
      else if c = CHR 0x09 then [CHR 0x5C, CHR ''t'']
      else if c = CHR 0x08 then [CHR 0x5C, CHR ''b'']
      else if c = CHR 0x0C then [CHR 0x5C, CHR ''f'']
      else if 32 \<le> (of_char c :: nat) \<and> (of_char c :: nat) \<le> 126 then [c]
      else [CHR 0x5C, CHR ''u'', CHR ''0'', CHR ''0'',
            hex_digit ((of_char c :: nat) div 16), hex_digit ((of_char c :: nat) mod 16)])\<close>

definition json_string :: "string \<Rightarrow> string" where
  \<open>json_string s = ''"'' @ concat (map json_escape_char s) @ ''"''\<close>

definition json_dumps :: "int \<Rightarrow> string \<Rightarrow> string \<Rightarrow> string option \<Rightarrow> string" where
  \<open>json_dumps timestamp channel username text =
     ''{"timestamp": '' @ str_int timestamp @
     '', "channel": '' @ json_string channel @
     '', "username": '' @ json_string username @
     '', "text": '' @ (case text of None \<Rightarrow> ''null'' | Some t \<Rightarrow> json_string t) @ ''}''\<close>

definition resolve_user_json ::
  "(string \<rightharpoonup> string) \<Rightarrow> (string \<rightharpoonup> string) \<Rightarrow> user_ref \<Rightarrow> string" where
  "resolve_user_json email_map username_map u =
     (case (case u_id u of None \<Rightarrow> None | Some user_id \<Rightarrow> email_map user_id) of
        Some e \<Rightarrow> e
      | None \<Rightarrow> resolve_username username_map u)"

text \<open>The inner loop of lines 459 to 482 over one batch: the lines of its file.\<close>

fun json_lines_loop ::
  "(string \<rightharpoonup> string) \<Rightarrow> (string \<rightharpoonup> string) \<Rightarrow> (string \<rightharpoonup> string) \<Rightarrow>
   rc_message list \<Rightarrow> py_error + string list" where
  "json_lines_loop room_map email_map username_map [] = Inr []"
| "json_lines_loop room_map email_map username_map (msg # rest) =
     (case (m_rid msg, m_u msg, m_ts msg) of
        (Some rid, Some u, Some ts) \<Rightarrow>
          (let channel = resolve_channel room_map rid;
               user_identifier = resolve_user_json email_map username_map u
           in case process_message_content msg of
                Inl e \<Rightarrow> Inl e
              | Inr text \<Rightarrow>
                  (case json_lines_loop room_map email_map username_map rest of
                     Inl e \<Rightarrow> Inl e
                   | Inr ls \<Rightarrow>
                       Inr (json_dumps (timestamp_int ts) channel user_identifier text # ls)))
      | _ \<Rightarrow> json_lines_loop room_map email_map username_map rest)"

text \<open>
  Line 487 writes \<open>"\\n".join(json_lines) + "\\n"\<close>. In the source both literals are
  written with two backslashes: each is the two-character string of a backslash and
  the letter n, not a line break.
\<close>

definition backslash_n :: string where
  "backslash_n = [CHR 0x5C, CHR ''n'']"

definition json_file_content :: "string list \<Rightarrow> string" where
  "json_file_content json_lines = py_join backslash_n json_lines @ backslash_n"

definition CHUNK_SIZE :: nat where
  "CHUNK_SIZE = 1000"

text \<open>
  Modelled from the spec: the query
  \<open>db.rocketchat_message.find().sort("ts", ASCENDING).skip(chunk_start).limit(CHUNK_SIZE)\<close>
  against the document store, "sorted ascending by timestamp, retrieved in fixed-size
  batches via offset/limit". A document without \<open>ts\<close> sorts before every date, as the
  store orders a missing field.
\<close>

definition find_sorted_page :: "rc_message list \<Rightarrow> nat \<Rightarrow> nat \<Rightarrow> rc_message list" where
  "find_sorted_page db skip limit = take limit (drop skip (sort_key m_ts db))"

record json_state =
  processed_messages :: nat
  json_files :: "(string \<times> string) list"

definition json_chunk_step ::
  "(string \<rightharpoonup> string) \<Rightarrow> (string \<rightharpoonup> string) \<Rightarrow> (string \<rightharpoonup> string) \<Rightarrow>
   rc_message list \<Rightarrow> json_state \<Rightarrow> nat \<Rightarrow> py_error + json_state" where
  "json_chunk_step room_map email_map username_map db st chunk_start =
     (let message_chunk = find_sorted_page db chunk_start CHUNK_SIZE in
      case json_lines_loop room_map email_map username_map message_chunk of
        Inl e \<Rightarrow> Inl e
      | Inr json_lines \<Rightarrow>
          Inr \<lparr> processed_messages = processed_messages st + length message_chunk,
                json_files = json_files st @
                  [(''messages_'' @ str_int (int (chunk_start div CHUNK_SIZE + 1)) @ ''.json'',
                    json_file_content json_lines)] \<rparr>)"

fun json_chunk_loop ::
  "(string \<rightharpoonup> string) \<Rightarrow> (string \<rightharpoonup> string) \<Rightarrow> (string \<rightharpoonup> string) \<Rightarrow>
   rc_message list \<Rightarrow> json_state \<Rightarrow> nat list \<Rightarrow> py_error + json_state" where
  "json_chunk_loop room_map email_map username_map db st [] = Inr st"
| "json_chunk_loop room_map email_map username_map db st (chunk_start # rest) =
     (case json_chunk_step room_map email_map username_map db st chunk_start of
        Inl e \<Rightarrow> Inl e
      | Inr st1 \<Rightarrow> json_chunk_loop room_map email_map username_map db st1 rest)"

text \<open>\<open>range(0, total_messages, CHUNK_SIZE)\<close>.\<close>

definition chunk_starts :: "nat \<Rightarrow> nat list" where
  "chunk_starts total_messages =
     map (\<lambda>k. k * CHUNK_SIZE) [0..<(total_messages + CHUNK_SIZE - 1) div CHUNK_SIZE]"

definition json_phase ::
  "(string \<rightharpoonup> string) \<Rightarrow> (string \<rightharpoonup> string) \<Rightarrow> (string \<rightharpoonup> string) \<Rightarrow>
   rc_message list \<Rightarrow> py_error + json_state" where
  "json_phase room_map email_map username_map db =
     json_chunk_loop room_map email_map username_map db
       \<lparr> processed_messages = 0, json_files = [] \<rparr>
       (chunk_starts (length db))"

subsection \<open>Example documents\<close>

text \<open>A message with none of its keys, to be filled in by record update.\<close>

definition empty_message :: rc_message where
  "empty_message =
     \<lparr> m_rid = None, m_u = None, m_ts = None, m_msg = None, m_mentions = None,
       m_attachments = None, m_file = None, m_files = None, m_reactions = None \<rparr>"

text \<open>The message of the spec's example scenario: room \<open>R\<close>, author \<open>u1\<close> named \<open>bob\<close>,
  sent 1700000000 seconds after the epoch, with the text \<open>hi "there"\<close>.\<close>

definition example_message :: rc_message where
  \<open>example_message =
     empty_message
       \<lparr> m_rid := Some ''R'',
         m_u := Some \<lparr> u_id = Some ''u1'', u_username = Some ''bob'' \<rparr>,
         m_ts := Some 1700000000000,
         m_msg := Some (Some ''hi "there"'') \<rparr>\<close>

definition example_room_map :: "string \<rightharpoonup> string" where
  "example_room_map = [''R'' \<mapsto> ''general'']"

text \<open>A direct-message room that stores neither a name nor its participants.\<close>

definition nameless_room :: rc_room where
  "nameless_room =
     \<lparr> r_id = ''AbC'', r_t = ''d'', r_name = None, r_usernames = None,
       r_ts = Some 1700000000000, r_archived = None \<rparr>"

section \<open>Properties\<close>

subsection \<open>Replacement, slices and the number of parts\<close>

lemma py_replace_from_char:
  "py_replace_from [q] new s = concat (map (\<lambda>c. if c = q then new else [c]) s)"
  by (induction s) simp_all

lemma py_replace_char:
  "py_replace [q] new s = concat (map (\<lambda>c. if c = q then new else [c]) s)"
  by (simp add: py_replace_def py_replace_from_char)

lemma concat_chunks:
  "concat (map (\<lambda>i. take m (drop (i * m) xs)) [0..<n]) = take (n * m) xs"
proof (induction n)
  case 0
  show ?case by simp
next
  case (Suc n)
  have "take (Suc n * m) xs = take (n * m + m) xs"
    by (simp add: add.commute)
  also have "\<dots> = take (n * m) xs @ take m (drop (n * m) xs)"
    by (rule take_add)
  finally show ?case
    using Suc by simp
qed

lemma py_slice_chunk:
  assumes "0 < m"
  shows "py_slice xs (int i * m) (min (int i * m + m) (int (length xs)))
         = take (nat m) (drop (i * nat m) xs)"
proof -
  have nn: "nat (int i * m) = i * nat m"
    using assms by (simp add: nat_mult_distrib)
  show ?thesis
  proof (cases "int i * m \<le> int (length xs)")
    case True
    then show ?thesis
      using assms nn by (auto simp: py_slice_def Let_def min_def not_le)
  next
    case False
    then have "length xs \<le> i * nat m" using nn by linarith
    then show ?thesis
      using assms False nn by (auto simp: py_slice_def Let_def min_def not_le)
  qed
qed

lemma num_parts_cover:
  assumes "0 < (m::int)"
  shows "l \<le> ((l + m - 1) div m) * m"
proof -
  have "l + m - 1 = (l + m - 1) div m * m + (l + m - 1) mod m"
    by simp
  moreover have "(l + m - 1) mod m < m"
    using assms by simp
  ultimately show ?thesis by linarith
qed

lemma num_parts_tight:
  assumes "0 < (m::int)"
  shows "((l + m - 1) div m - 1) * m < l"
proof -
  define d where "d = (l + m - 1) div m"
  have eq: "l + m - 1 = d * m + (l + m - 1) mod m"
    unfolding d_def by simp
  have nonneg: "0 \<le> (l + m - 1) mod m"
    using assms by simp
  have "(d - 1) * m = d * m - m"
    by (simp add: algebra_simps)
  with eq nonneg have "(d - 1) * m < l" by linarith
  then show ?thesis by (simp add: d_def)
qed

lemma num_parts_ceiling:
  assumes "0 < (m::int)"
  shows "(l + m - 1) div m = \<lceil>real_of_int l / real_of_int m\<rceil>"
proof -
  define q where "q = (l + m - 1) div m"
  have up: "real_of_int l \<le> real_of_int q * real_of_int m"
    using num_parts_cover [OF assms, of l] unfolding q_def
    by (metis of_int_le_iff of_int_mult)
  have lo: "(real_of_int q - 1) * real_of_int m < real_of_int l"
    using num_parts_tight [OF assms, of l] unfolding q_def
    by (metis of_int_less_iff of_int_mult of_int_diff of_int_1)
  have mpos: "0 < real_of_int m" using assms by simp
  have "real_of_int l / real_of_int m \<le> real_of_int q"
    using up mpos by (simp add: pos_divide_le_eq)
  moreover have "real_of_int q - 1 < real_of_int l / real_of_int m"
    using lo mpos by (simp add: pos_less_divide_eq)
  ultimately have "\<lceil>real_of_int l / real_of_int m\<rceil> = q"
    by (rule ceiling_unique [OF _ _, rotated -1]) 
  then show ?thesis by (simp add: q_def)
qed

lemma escape_for_csv_Nil: "escape_for_csv (Some []) = []"
  by (simp add: escape_for_csv_def py_replace_def)

lemma prepare_fits:
  assumes "int (length (escape_for_csv text)) \<le> max_length"
  shows "prepare_message_for_csv text max_length = Inr [escape_for_csv text]"
  using assms
  by (cases "text") (simp_all add: prepare_message_for_csv_def escape_for_csv_def Let_def py_replace_def)

lemma prepare_split:
  assumes "0 < max_length"
    and "max_length < int (length (escape_for_csv (Some text)))"
  shows "prepare_message_for_csv (Some text) max_length =
         Inr (map (\<lambda>i. part_with_indicator i
                          ((int (length (escape_for_csv (Some text))) + max_length - 1) div max_length)
                          (take (nat max_length) (drop (i * nat max_length) (escape_for_csv (Some text)))))
                [0..<nat ((int (length (escape_for_csv (Some text))) + max_length - 1) div max_length)])"
proof -
  have ne: "text \<noteq> []"
    using assms escape_for_csv_Nil by auto
  show ?thesis
    using assms ne
    by (simp add: prepare_message_for_csv_def escape_for_csv_def Let_def py_slice_chunk)
qed

subsection \<open>Splitting an oversized text\<close>

text \<open>
  C5. When the escaped text is longer than a positive threshold, the splitter returns
  exactly \<open>N = \<lceil>L / threshold\<rceil>\<close> parts, \<open>L\<close> the escaped length. Part number \<open>i\<close>
  (counted from 1) is the prefix \<open>[Part i/N]\<close>, a space, and a segment of at most
  \<open>threshold\<close> characters; the parts come in the order \<open>1, ..., N\<close>, and the segments
  joined in that order are the escaped text.
\<close>

theorem prepare_message_for_csv_split:
  assumes "0 < max_length"
    and "max_length < int (length (escape_for_csv (Some text)))"
  shows "\<exists>segs.
           prepare_message_for_csv (Some text) max_length =
             Inr (map (\<lambda>i. ''[Part '' @ str_int (int i + 1) @ ''/'' @
                            str_int (int (length segs)) @ ''] '' @ segs ! i)
                      [0..<length segs])
         \<and> int (length segs) =
             \<lceil>real (length (escape_for_csv (Some text))) / real_of_int max_length\<rceil>
         \<and> (\<forall>s \<in> set segs. int (length s) \<le> max_length)
         \<and> concat segs = escape_for_csv (Some text)"
proof -
  define E where "E = escape_for_csv (Some text)"
  define N where "N = (int (length E) + max_length - 1) div max_length"
  define segs where
    "segs = map (\<lambda>i. take (nat max_length) (drop (i * nat max_length) E)) [0..<nat N]"
  have len: "length segs = nat N"
    by (simp add: segs_def)
  have cover: "int (length E) \<le> N * max_length"
    unfolding N_def using num_parts_cover [OF assms(1)] .
  have Npos: "0 \<le> N"
    unfolding N_def using assms(1) by (simp add: pos_imp_zdiv_nonneg_iff)
  have intlen: "int (length segs) = N"
    using len Npos by simp
  have parts: "prepare_message_for_csv (Some text) max_length =
      Inr (map (\<lambda>i. ''[Part '' @ str_int (int i + 1) @ ''/'' @
                     str_int (int (length segs)) @ ''] '' @ segs ! i) [0..<length segs])"
    unfolding prepare_split [OF assms] intlen len
    by (simp add: part_with_indicator_def segs_def E_def N_def)
  have ceil: "int (length segs) = \<lceil>real (length E) / real_of_int max_length\<rceil>"
    unfolding intlen N_def using num_parts_ceiling [OF assms(1), of "int (length E)"] by simp
  have bound: "\<forall>s \<in> set segs. int (length s) \<le> max_length"
    using assms(1) by (auto simp: segs_def)
  have "length E \<le> nat N * nat max_length"
    using cover Npos assms(1)
    by (metis nat_int nat_mono nat_mult_distrib)
  then have cat: "concat segs = E"
    unfolding segs_def by (simp add: concat_chunks)
  show ?thesis
    using parts ceil bound cat unfolding E_def by blast
qed

theorem prepare_message_for_csv_split_witness:
  "0 < (3::int) \<and> 3 < int (length (escape_for_csv (Some ''abcdefg''))) \<and>
   (\<exists>segs.
      prepare_message_for_csv (Some ''abcdefg'') 3 =
        Inr (map (\<lambda>i. ''[Part '' @ str_int (int i + 1) @ ''/'' @
                       str_int (int (length segs)) @ ''] '' @ segs ! i)
                 [0..<length segs])
    \<and> int (length segs) = \<lceil>real (length (escape_for_csv (Some ''abcdefg''))) / real_of_int 3\<rceil>
    \<and> (\<forall>s \<in> set segs. int (length s) \<le> 3)
    \<and> concat segs = escape_for_csv (Some ''abcdefg''))"
proof -
  have h: "3 < int (length (escape_for_csv (Some ''abcdefg'')))"
    by (simp add: escape_for_csv_def py_replace_def)
  show ?thesis
    using h prepare_message_for_csv_split [of 3 "''abcdefg''", OF _ h] by simp
qed

subsection \<open>Helper facts on the CSV loop\<close>


lemma concat_replicate_pair:
  "concat (replicate n [q, q]) = replicate (2 * n) q"
  by (induction n) simp_all

lemma py_replace_replicate:
  "py_replace [q] [q, q] (replicate n q) = replicate (2 * n) q"
  by (simp add: py_replace_char concat_replicate_pair)

lemma prepare_total:
  assumes "0 < max_length"
  shows "\<exists>parts. prepare_message_for_csv text max_length = Inr parts"
  using assms
  by (cases "text") (simp_all add: prepare_message_for_csv_def Let_def)

lemma prepare_split_nth:
  assumes "0 < max_length"
    and "max_length < int (length (escape_for_csv (Some t)))"
    and "prepare_message_for_csv (Some t) max_length = Inr parts"
    and "i < length parts"
  shows "\<exists>seg. parts ! i = part_with_indicator i (int (length parts)) seg \<and>
               int (length seg) \<le> max_length"
proof -
  define N where "N = (int (length (escape_for_csv (Some t))) + max_length - 1) div max_length"
  have Npos: "0 \<le> N"
    unfolding N_def using assms(1) by (simp add: pos_imp_zdiv_nonneg_iff)
  have parts: "parts = map (\<lambda>i. part_with_indicator i N
                 (take (nat max_length) (drop (i * nat max_length) (escape_for_csv (Some t)))))
               [0..<nat N]"
    using prepare_split [OF assms(1,2)] assms(3) by (simp add: N_def)
  then have len: "int (length parts) = N"
    using Npos by simp
  have "parts ! i = part_with_indicator i (int (length parts))
          (take (nat max_length) (drop (i * nat max_length) (escape_for_csv (Some t))))"
    using assms(4) len parts by simp
  moreover have "int (length (take (nat max_length)
          (drop (i * nat max_length) (escape_for_csv (Some t))))) \<le> max_length"
    using assms(1) by simp
  ultimately show ?thesis by blast
qed







lemma str_int_1: "str_int 1 = ''1''"
  by (simp add: str_int_def str_nat.simps digit_char_def)

lemma str_int_2: "str_int 2 = ''2''"
  by (simp add: str_int_def str_nat.simps digit_char_def)

lemma upt_2: "[0..<2] = [0, 1]"
  by (simp add: upt_rec)

lemma process_text_only:
  assumes "m_attachments msg = None" and "m_file msg = None"
    and "m_files msg = None" and "m_reactions msg = None"
  shows "process_message_content msg =
           Inr (case m_msg msg of None \<Rightarrow> Some '''' | Some c \<Rightarrow> c)"
  using assms
  by (simp add: process_message_content_def attachments_part_def
        files_part_def reactions_part_def)

subsection \<open>Texts that fit\<close>

text \<open>
  C8, as amended. When the extracted content, once escaped, is no longer than the
  threshold, the splitter returns exactly one part, the escaped content. The length
  that decides is the escaped one: a text of 2001 double quotes is shorter than the
  default threshold of 4000 and is still split in two, because its escaped form has 4002
  characters.
\<close>

theorem fits_one_part:
  assumes "process_message_content msg = Inr text"
    and "int (length (escape_for_csv text)) \<le> max_length"
  shows "prepare_message_for_csv text max_length = Inr [escape_for_csv text]"
  using assms(2) by (rule prepare_fits)

theorem fits_one_part_witness:
  \<open>process_message_content example_message = Inr (Some ''hi "there"'') \<and>
   int (length (escape_for_csv (Some ''hi "there"''))) \<le> default_max_length \<and>
   prepare_message_for_csv (Some ''hi "there"'') default_max_length = Inr [''hi ""there""''] \<and>
   escape_for_csv (Some ''hi "there"'') = ''hi ""there""''\<close>
proof -
  have p: \<open>process_message_content example_message = Inr (Some ''hi "there"'')\<close>
    by (simp add: process_text_only example_message_def empty_message_def)
  have e: \<open>escape_for_csv (Some ''hi "there"'') = ''hi ""there""''\<close>
    by (simp add: escape_for_csv_def py_replace_def)
  have l: \<open>int (length (escape_for_csv (Some ''hi "there"''))) \<le> default_max_length\<close>
    by (simp add: e default_max_length_def)
  show ?thesis
    using fits_one_part [OF p l] p l e by simp
qed

theorem short_text_split_counterexample:
  "process_message_content (empty_message\<lparr>m_msg := Some (Some (replicate 2001 (CHR 0x22)))\<rparr>)
     = Inr (Some (replicate 2001 (CHR 0x22))) \<and>
   int (length (replicate 2001 (CHR 0x22))) \<le> default_max_length \<and>
   prepare_message_for_csv (Some (replicate 2001 (CHR 0x22))) default_max_length =
     Inr [''[Part 1/2] '' @ replicate 4000 (CHR 0x22), ''[Part 2/2] '' @ replicate 2 (CHR 0x22)]"
proof -
  have e: "escape_for_csv (Some (replicate 2001 (CHR 0x22))) = replicate 4002 (CHR 0x22)"
    by (simp add: escape_for_csv_def py_replace_replicate)
  have "prepare_message_for_csv (Some (replicate 2001 (CHR 0x22))) 4000 =
     Inr [''[Part 1/2] '' @ replicate 4000 (CHR 0x22), ''[Part 2/2] '' @ replicate 2 (CHR 0x22)]"
    by (subst prepare_split) (simp_all add: e upt_2 part_with_indicator_def str_int_1 str_int_2)
  then show ?thesis
    by (simp add: process_text_only empty_message_def default_max_length_def)
qed

subsection \<open>Empty content\<close>



subsection \<open>The length of a part and the order of the rows\<close>








subsection \<open>The content extractor returns a string\<close>











subsection \<open>The rows and files written for concrete documents\<close>

lemma str_int_example_time: "str_int (timestamp_int 1700000000000) = ''1700000000''"
  by (simp add: timestamp_int_def str_int_def str_nat.simps digit_char_def)

lemma chunk_starts_1: "chunk_starts (length [a]) = [0]"
  by (simp add: chunk_starts_def CHUNK_SIZE_def)

lemma chunk_starts_2: "chunk_starts (length [a, b]) = [0]"
  by (simp add: chunk_starts_def CHUNK_SIZE_def)

lemma str_int_later_time: "str_int (timestamp_int 1700000060000) = ''1700000060''"
  by (simp add: timestamp_int_def str_int_def str_nat.simps digit_char_def)

lemma csv_loop_body_incomplete:
  "\<not> is_complete msg \<Longrightarrow>
   csv_loop_body room_map username_map b e st msg = Inr st"
  by (auto simp: is_complete_def csv_loop_body_def split: option.splits)

lemma json_lines_loop_incomplete:
  "\<not> is_complete msg \<Longrightarrow>
   json_lines_loop room_map email_map username_map (msg # rest) =
   json_lines_loop room_map email_map username_map rest"
  by (auto simp: is_complete_def split: option.splits)

lemma json_chunk_step_counts_chunk:
  "json_chunk_step room_map email_map username_map db st chunk_start = Inr st' \<Longrightarrow>
   processed_messages st' =
     processed_messages st + length (find_sorted_page db chunk_start CHUNK_SIZE)"
  by (auto simp: json_chunk_step_def Let_def split: sum.splits)

lemma room_map_value_named:
  "r_name r \<noteq> None \<or> r_usernames r \<noteq> None \<Longrightarrow> room_map_value r = slug (room_name r)"
  by (auto simp: room_map_value_def room_name_def split: option.splits)

lemma room_map_value_nameless:
  "r_name r = None \<Longrightarrow> r_usernames r = None \<Longrightarrow>
   room_map_value r = ''dm-'' @ r_id r \<and> room_name r = ''dm-'' @ r_id r"
  by (simp add: room_map_value_def room_name_def)

text \<open>
  C1. The claim: the text field of a row holds the content with every double quote
  doubled exactly once, and the example message is written as the row
  \<open>T,general,bob,"hi ""there"""\<close>. The evaluation of Phase 3 on the example message:
  \<open>prepare_message_for_csv\<close> doubles the quotes once, as \<open>py_replace_char\<close> describes,
  and hands \<open>hi ""there""\<close> to the CSV writer, which quotes the field and doubles each
  of its quotes again. The row in the file is \<open>1700000000,general,bob,"hi """"there"""""\<close>.
\<close>

theorem example_message_row_quotes_doubled_twice:
  \<open>process_message_content example_message = Inr (Some ''hi "there"'') \<and>
   prepare_message_for_csv (Some ''hi "there"'') default_max_length = Inr [''hi ""there""''] \<and>
   csv_phase example_room_map Map.empty ''messages_export'' ''.csv'' [example_message] =
     Inr \<lparr> message_count = 1, stats_messages_mongodb = 1,
           csv_files_created = [''messages_export_general.csv''],
           channel_files =
             [(''general'',
               [''timestamp,channel,username,text'' @ [CHR 0x0D, CHR 0x0A],
                ''1700000000,general,bob,"hi """"there"""""'' @ [CHR 0x0D, CHR 0x0A]])] \<rparr>\<close>
proof -
  have p: \<open>process_message_content example_message = Inr (Some ''hi "there"'')\<close>
    by (simp add: process_text_only example_message_def empty_message_def)
  have q: \<open>prepare_message_for_csv (Some ''hi "there"'') default_max_length = Inr [''hi ""there""'']\<close>
    by (simp add: prepare_message_for_csv_def py_replace_def default_max_length_def)
  have s: "sorted_messages [example_message] = Inr [example_message]"
    by (simp add: sorted_messages_def sort_key_ts_def example_message_def)
  have f: "m_rid example_message = Some ''R''"
    "m_u example_message = Some \<lparr>u_id = Some ''u1'', u_username = Some ''bob''\<rparr>"
    "m_ts example_message = Some 1700000000000"
    by (simp_all add: example_message_def)
  have ch: "resolve_channel example_room_map ''R'' = ''general''"
    by (simp add: resolve_channel_def example_room_map_def)
  have un: "resolve_username Map.empty \<lparr>u_id = Some ''u1'', u_username = Some ''bob''\<rparr> = ''bob''"
    by (simp add: resolve_username_def)
  have c: \<open>csv_phase example_room_map Map.empty ''messages_export'' ''.csv'' [example_message] =
     Inr \<lparr> message_count = 1, stats_messages_mongodb = 1,
           csv_files_created = [''messages_export_general.csv''],
           channel_files =
             [(''general'',
               [''timestamp,channel,username,text'' @ [CHR 0x0D, CHR 0x0A],
                ''1700000000,general,bob,"hi """"there"""""'' @ [CHR 0x0D, CHR 0x0A]])] \<rparr>\<close>
    by (simp add: csv_phase_def s csv_loop_body_def f p q ch un str_int_example_time
          csv_state_init_def open_channel_file_def write_part_def write_to_channel_def
          csv_writerow_def csv_field_def csv_special_def)
  show ?thesis
    using p q c by simp
qed

text \<open>
  C2. The claim: the records of a batch are written one JSON value per line, separated
  by line breaks, in a file \<open>messages_<n>.json\<close> numbered from 1. The evaluation of
  Phase 4 on two complete messages: one file \<open>messages_1.json\<close>, whose two records are
  each followed by the two characters backslash and \<open>n\<close>; the file holds no line-break
  character at all.
\<close>

theorem json_records_joined_by_backslash_n:
  \<open>json_phase example_room_map Map.empty Map.empty
     [example_message\<lparr>m_msg := Some (Some ''one'')\<rparr>,
      example_message\<lparr>m_ts := Some 1700000060000, m_msg := Some (Some ''two'')\<rparr>] =
     Inr \<lparr> processed_messages = 2,
           json_files =
             [(''messages_1.json'',
               ''{"timestamp": 1700000000, "channel": "general", "username": "bob", "text": "one"}''
               @ [CHR 0x5C, CHR ''n''] @
               ''{"timestamp": 1700000060, "channel": "general", "username": "bob", "text": "two"}''
               @ [CHR 0x5C, CHR ''n''])] \<rparr> \<and>
   CHR 0x0A \<notin> set
     (''{"timestamp": 1700000000, "channel": "general", "username": "bob", "text": "one"}''
      @ [CHR 0x5C, CHR ''n''] @
      ''{"timestamp": 1700000060, "channel": "general", "username": "bob", "text": "two"}''
      @ [CHR 0x5C, CHR ''n''])\<close>
proof -
  let ?m1 = "example_message\<lparr>m_msg := Some (Some ''one'')\<rparr>"
  let ?m2 = "example_message\<lparr>m_ts := Some 1700000060000, m_msg := Some (Some ''two'')\<rparr>"
  have page: "find_sorted_page [?m1, ?m2] 0 CHUNK_SIZE = [?m1, ?m2]"
    by (simp add: find_sorted_page_def CHUNK_SIZE_def example_message_def)
  have p1: "process_message_content ?m1 = Inr (Some ''one'')"
    and p2: "process_message_content ?m2 = Inr (Some ''two'')"
    by (simp_all add: process_text_only example_message_def empty_message_def)
  have f1: "m_rid ?m1 = Some ''R''"
    "m_u ?m1 = Some \<lparr>u_id = Some ''u1'', u_username = Some ''bob''\<rparr>"
    "m_ts ?m1 = Some 1700000000000"
    and f2: "m_rid ?m2 = Some ''R''"
    "m_u ?m2 = Some \<lparr>u_id = Some ''u1'', u_username = Some ''bob''\<rparr>"
    "m_ts ?m2 = Some 1700000060000"
    by (simp_all add: example_message_def)
  have ch: "resolve_channel example_room_map ''R'' = ''general''"
    by (simp add: resolve_channel_def example_room_map_def)
  have un: "resolve_user_json Map.empty Map.empty \<lparr>u_id = Some ''u1'', u_username = Some ''bob''\<rparr> = ''bob''"
    by (simp add: resolve_user_json_def resolve_username_def)
  have js: \<open>json_string ''general'' = ''"general"''\<close> \<open>json_string ''bob'' = ''"bob"''\<close>
    \<open>json_string ''one'' = ''"one"''\<close> \<open>json_string ''two'' = ''"two"''\<close>
    by (simp_all add: json_string_def json_escape_char_def)
  have ls: \<open>json_lines_loop example_room_map Map.empty Map.empty [?m1, ?m2] =
     Inr [''{"timestamp": 1700000000, "channel": "general", "username": "bob", "text": "one"}'',
          ''{"timestamp": 1700000060, "channel": "general", "username": "bob", "text": "two"}'']\<close>
    by (simp add: f1 f2 p1 p2 ch un json_dumps_def js str_int_example_time str_int_later_time)
  have \<open>json_phase example_room_map Map.empty Map.empty [?m1, ?m2] =
     Inr \<lparr> processed_messages = 2,
           json_files =
             [(''messages_1.json'',
               ''{"timestamp": 1700000000, "channel": "general", "username": "bob", "text": "one"}''
               @ [CHR 0x5C, CHR ''n''] @
               ''{"timestamp": 1700000060, "channel": "general", "username": "bob", "text": "two"}''
               @ [CHR 0x5C, CHR ''n''])] \<rparr>\<close>
    unfolding json_phase_def chunk_starts_2
    by (simp add: json_chunk_step_def page ls Let_def json_file_content_def backslash_n_def
          del: json_lines_loop.simps)
      (simp add: CHUNK_SIZE_def str_int_1)
  then show ?thesis by simp
qed

text \<open>
  C3. The claim: a message without room, author or time gives no CSV row and no JSON
  record and is counted in no total. The evaluation on a message without \<open>rid\<close>:
  Phase 3 writes nothing and counts nothing (\<open>csv_loop_body_incomplete\<close>), Phase 4
  writes no record (\<open>json_lines_loop_incomplete\<close>) but adds the whole batch, this
  message included, to \<open>processed_messages\<close>, the number printed as "Messages exported
  to JSON" (\<open>json_chunk_step_counts_chunk\<close>).
\<close>

theorem incomplete_message_counted_by_json_phase:
  "is_complete (example_message\<lparr>m_rid := None\<rparr>) = False \<and>
   csv_phase example_room_map Map.empty ''messages_export'' ''.csv''
     [example_message\<lparr>m_rid := None\<rparr>] = Inr csv_state_init \<and>
   json_phase example_room_map Map.empty Map.empty [example_message\<lparr>m_rid := None\<rparr>] =
     Inr \<lparr> processed_messages = 1,
           json_files = [(''messages_1.json'', [CHR 0x5C, CHR ''n''])] \<rparr>"
proof -
  let ?m = "example_message\<lparr>m_rid := None\<rparr>"
  have r: "m_rid ?m = None" and t: "m_ts ?m = Some 1700000000000"
    by (simp_all add: example_message_def)
  have page: "find_sorted_page [?m] 0 CHUNK_SIZE = [?m]"
    by (simp add: find_sorted_page_def CHUNK_SIZE_def)
  have s: "sorted_messages [?m] = Inr [?m]"
    by (simp add: sorted_messages_def sort_key_ts_def t)
  have c: "csv_phase example_room_map Map.empty ''messages_export'' ''.csv'' [?m] = Inr csv_state_init"
    by (simp add: csv_phase_def s csv_loop_body_def r)
  have j: "json_phase example_room_map Map.empty Map.empty [?m] =
     Inr \<lparr> processed_messages = 1,
           json_files = [(''messages_1.json'', [CHR 0x5C, CHR ''n''])] \<rparr>"
    unfolding json_phase_def chunk_starts_1
    by (simp add: json_chunk_step_def page r Let_def json_file_content_def backslash_n_def)
      (simp add: CHUNK_SIZE_def str_int_1)
  show ?thesis
    using c j by (simp add: is_complete_def r)
qed

text \<open>
  C6. The claim: for every room the channel name in the room map of Phase 3 equals the
  \<open>name\<close> of the room's export entry. They agree for a room with a name or with user
  names (\<open>room_map_value_named\<close>). For a room with neither, the export entry slugs
  \<open>dm-<id>\<close> and the room map stores it as it is: the room \<open>AbC\<close> is \<open>dm-abc\<close> in
  \<open>dms.json\<close> and \<open>dm-AbC\<close> in the room map.
\<close>

theorem nameless_room_channel_differs_from_export_name:
  "build_room_map [nameless_room] ''AbC'' = Some ''dm-AbC'' \<and>
   room_export_entry nameless_room =
     Some (''dms.json'',
           Inr \<lparr> sr_id = ''CAbC'', sr_name = ''dm-abc'', sr_created = 1700000000,
                 sr_is_archived = False, sr_is_private = True \<rparr>)"
  by (simp add: build_room_map_def room_map_value_def room_export_entry_def make_room_entry_def
        room_name_def nameless_room_def timestamp_int_def slug_def re_sub_slug_def py_lower_def
        lower_char_def upper_chars_def lower_chars_def slug_class_def)

text \<open>
  C7. The claim: the sort of the message corpus by time succeeds for every corpus, a
  message without time sorting first. The evaluation on a corpus with one message
  without \<open>ts\<close>: the key of that message raises \<open>AttributeError\<close>, and with it the
  sort and Phase 3.
\<close>

theorem no_timestamp_sort_raises:
  "sort_key_ts (example_message\<lparr>m_ts := None\<rparr>) = Inl AttributeError \<and>
   sorted_messages [example_message, example_message\<lparr>m_ts := None\<rparr>] = Inl AttributeError \<and>
   csv_phase example_room_map Map.empty ''messages_export'' ''.csv''
     [example_message, example_message\<lparr>m_ts := None\<rparr>] = Inl AttributeError"
  by (simp add: csv_phase_def sorted_messages_def sort_key_ts_def datetime_datetime_min_def
        example_message_def)

end
